theory Spec2Isabelle
  imports Complex_Main
begin

section \<open>Strings\<close>

text \<open>
  \<^verbatim>\<open>String.prototype.split\<close> with a one-character separator: the pieces between
  the occurrences of the separator, in order. The result always has at least one piece
  (\<^verbatim>\<open>"".split('/')\<close> is \<^verbatim>\<open>[""]\<close>, \<^verbatim>\<open>"a/".split('/')\<close> is \<^verbatim>\<open>["a", ""]\<close>).
\<close>

primrec js_split :: "char \<Rightarrow> string \<Rightarrow> string list" where
  "js_split sep [] = [[]]"
| "js_split sep (c # cs) =
     (if c = sep then [] # js_split sep cs
      else (case js_split sep cs of
              [] \<Rightarrow> [[c]]
            | seg # segs \<Rightarrow> (c # seg) # segs))"

section \<open>Media store adapter\<close>

text \<open>The folder of the storage configuration (\<^verbatim>\<open>folder: 'store-products'\<close>).\<close>

definition folder :: string where
  "folder = ''store-products''"

text \<open>
  \<^verbatim>\<open>
  const getPublicIdFromUrl = (url: string): string => {
    const splitUrl = url.split('/');
    const filename = splitUrl[splitUrl.length - 1];
    const publicId = `store-products/${filename.split('.')[0]}`;
    return publicId;
  };
  \<close>
  Both index reads are in range, since a split never returns the empty list
  (lemma \<open>js_split_not_Nil\<close> below).
\<close>

definition getPublicIdFromUrl :: "string \<Rightarrow> string" where
  "getPublicIdFromUrl url =
     (let splitUrl = js_split CHR ''/'' url;
          filename = splitUrl ! (length splitUrl - 1);
          publicId = ''store-products/'' @ (js_split CHR ''.'' filename) ! 0
      in publicId)"

text \<open>The formats the storage configuration accepts (\<^verbatim>\<open>allowed_formats: ['jpg', 'png']\<close>).\<close>

datatype format = Jpg | Png

fun extension :: "format \<Rightarrow> string" where
  "extension Jpg = ''jpg''"
| "extension Png = ''png''"

record remote_asset =
  url :: string
  "identifier" :: string

text \<open>
  Modelled from the spec: the upload of the media store itself (the hosting service
  behind \<^verbatim>\<open>multer-storage-cloudinary\<close>) is not part of the repository. The spec
  says that an upload stores the binary under the fixed folder and returns a public URL
  and the store's identifier, and that the identifier is the URL's last path segment
  without its extension, under the folder. Here \<open>delivery\<close> is the part of the URL in
  front of the folder and \<open>asset_name\<close> is the name the store gives to the asset
  inside the folder.
\<close>

definition upload :: "string \<Rightarrow> string \<Rightarrow> format \<Rightarrow> remote_asset" where
  "upload delivery asset_name fmt =
     \<lparr> url = delivery @ ''/'' @ folder @ ''/'' @ asset_name @ ''.'' @ extension fmt,
       identifier = folder @ ''/'' @ asset_name \<rparr>"


section \<open>Products\<close>

text \<open>
  A JavaScript number as far as the catalogue looks at it: \<^verbatim>\<open>NaN\<close>, or the rational a
  finite number stands for. The handlers never compute with a price; they pass
  \<^verbatim>\<open>Number(price)\<close> on to the store.
\<close>

datatype jsnum = NaN | Num rat

text \<open>
  The object literals the handlers build (\<^verbatim>\<open>newProduct\<close>, \<^verbatim>\<open>updateData\<close>):
  \<open>None\<close> is a property that is undefined or missing. A stored document has an
  \<^verbatim>\<open>_id\<close> as well, written \<open>p_id\<close> (the value of \<^verbatim>\<open>p._id.toString()\<close>).
\<close>

record product_data =
  name :: "string option"
  description :: "string option"
  price :: jsnum
  imageUrl :: "string option"

record product = product_data +
  p_id :: string

text \<open>Truthiness of an optional string: defined and not empty.\<close>

definition truthy :: "string option \<Rightarrow> bool" where
  "truthy s = (case s of None \<Rightarrow> False | Some t \<Rightarrow> t \<noteq> [])"

fun positive :: "jsnum \<Rightarrow> bool" where
  "positive NaN = False"
| "positive (Num r) = (0 < r)"

text \<open>
  The invariant of the data model in the words of the spec: name and description are
  non-empty text, the price is a number greater than 0, the image URL is non-empty.
\<close>

definition product_invariant :: "product \<Rightarrow> bool" where
  "product_invariant p =
     (truthy (name p) \<and> truthy (description p) \<and> positive (price p) \<and> truthy (imageUrl p))"

section \<open>State, environment, errors\<close>

text \<open>
  The state a request can change: the documents of the collection, in the store's order,
  and the calls that have been made to the media store, oldest first. \<open>Upload i\<close> is
  an upload that stored an asset with the identifier \<open>i\<close>, \<open>UploadRefused\<close> an upload
  that the media store refused.
\<close>

datatype media_call = Upload string | UploadRefused | Destroy string

record world =
  db :: "product list"
  media :: "media_call list"

text \<open>
  What a request cannot control: whether the persistence calls reject, how the media
  store answers a \<^verbatim>\<open>destroy\<close> (it resolves with \<^verbatim>\<open>ok\<close> or \<^verbatim>\<open>not found\<close>, or
  rejects), whether the media store refuses an upload (a format outside the allowed
  ones, a failure of the service), the asset it returns for an upload it accepts, and
  the id the store generates for an inserted document. A handler makes at most one call
  of each kind.
\<close>

datatype destroy_reply = DestroyOk | DestroyNotFound | DestroyRejected

record env =
  list_fails :: bool
  write_fails :: bool
  destroy_reply :: destroy_reply
  upload_refused :: bool
  stored_asset :: remote_asset
  generated_id :: string

datatype error = StoreUnavailable | AdapterFailure | UnexpectedField

section \<open>Persistence collaborator\<close>

datatype write_result = Acknowledged

text \<open>
  Modelled from the spec: \<^verbatim>\<open>../config/database\<close> (\<^verbatim>\<open>getProducts\<close>,
  \<^verbatim>\<open>insertProduct\<close>, \<^verbatim>\<open>updateProduct\<close>, \<^verbatim>\<open>deleteProduct\<close>) is not among the
  sources. The spec describes a document collection keyed by a generated identifier
  with list-all, insert, update-by-id and delete-by-id, each failing with
  \<open>StoreUnavailable\<close> when the store cannot be reached; insert returns the stored
  product with its generated id; an update replaces the fields it is given, so an
  update without an image URL retains the previous one.
\<close>

definition getProducts :: "env \<Rightarrow> world \<Rightarrow> error + product list" where
  "getProducts e w = (if list_fails e then Inl StoreUnavailable else Inr (db w))"

definition insertProduct :: "env \<Rightarrow> world \<Rightarrow> product_data \<Rightarrow> world \<times> (error + product)" where
  "insertProduct e w d =
     (if write_fails e then (w, Inl StoreUnavailable)
      else (let stored = \<lparr> name = name d, description = description d, price = price d,
                            imageUrl = imageUrl d, p_id = generated_id e \<rparr>
            in (w\<lparr>db := db w @ [stored]\<rparr>, Inr stored)))"

definition merge :: "product \<Rightarrow> product_data \<Rightarrow> product" where
  "merge p d =
     p\<lparr> name := name d, description := description d, price := price d,
        imageUrl := (case imageUrl d of None \<Rightarrow> imageUrl p | Some u \<Rightarrow> Some u) \<rparr>"

definition updateProduct ::
  "env \<Rightarrow> world \<Rightarrow> string \<Rightarrow> product_data \<Rightarrow> world \<times> (error + write_result)" where
  "updateProduct e w i d =
     (if write_fails e then (w, Inl StoreUnavailable)
      else (w\<lparr>db := map (\<lambda>p. if p_id p = i then merge p d else p) (db w)\<rparr>, Inr Acknowledged))"

definition deleteProduct :: "env \<Rightarrow> world \<Rightarrow> string \<Rightarrow> world \<times> (error + write_result)" where
  "deleteProduct e w i =
     (if write_fails e then (w, Inl StoreUnavailable)
      else (w\<lparr>db := filter (\<lambda>p. p_id p \<noteq> i) (db w)\<rparr>, Inr Acknowledged))"

section \<open>Calls to the media store\<close>

text \<open>
  \<^verbatim>\<open>cloudinary.uploader.destroy(publicId)\<close>: the call is made, and then either
  resolves with the store's answer or rejects.
\<close>

definition destroy :: "env \<Rightarrow> world \<Rightarrow> string \<Rightarrow> world \<times> (error + destroy_reply)" where
  "destroy e w publicId =
     (let w' = w\<lparr>media := media w @ [Destroy publicId]\<rparr>
      in (case destroy_reply e of
            DestroyRejected \<Rightarrow> (w', Inl AdapterFailure)
          | DestroyOk \<Rightarrow> (w', Inr DestroyOk)
          | DestroyNotFound \<Rightarrow> (w', Inr DestroyNotFound)))"

section \<open>Requests and responses\<close>

text \<open>
  \<open>body_price\<close> is the value of \<^verbatim>\<open>Number(req.body.price)\<close>. \<open>image_part\<close> says
  whether the multipart form carries a file, and \<open>file_field\<close> is the name of the form
  field the file is in; \<open>file\<close> is \<^verbatim>\<open>req.file\<close>, which the upload middleware sets.
\<close>

record upload_file =
  path :: string

record request =
  params_id :: string
  body_name :: "string option"
  body_description :: "string option"
  body_price :: jsnum
  image_part :: bool
  file_field :: string
  "file" :: "upload_file option"

text \<open>
  The bodies of the answers. \<open>ErrorPage\<close> is the page of the framework's own error
  handler, which answers when a middleware ends the request with an error.
\<close>

datatype json =
    Products "product list"
  | Message string
  | MessageProduct string product
  | MessageResult string write_result
  | ErrorPage

record response =
  status :: nat
  body :: json

text \<open>
  \<^verbatim>\<open>upload.single('image')\<close> with the storage above. A form without a file passes with
  \<^verbatim>\<open>req.file\<close> undefined. A file in another field than \<^verbatim>\<open>image\<close> is an error before
  anything is sent to the media store. A file in the field \<^verbatim>\<open>image\<close> is sent to the
  media store before the handler runs: when the store accepts it,
  \<^verbatim>\<open>req.file.path\<close> is the URL of the asset; when the store refuses it, that is an error.
\<close>

definition upload_single :: "env \<Rightarrow> world \<Rightarrow> request \<Rightarrow> world \<times> (error + request)" where
  "upload_single e w req =
     (if \<not> image_part req then (w, Inr (req\<lparr>file := None\<rparr>))
      else if file_field req \<noteq> ''image'' then (w, Inl UnexpectedField)
      else if upload_refused e
      then (w\<lparr>media := media w @ [UploadRefused]\<rparr>, Inl AdapterFailure)
      else (w\<lparr>media := media w @ [Upload (identifier (stored_asset e))]\<rparr>,
            Inr (req\<lparr>file := Some \<lparr> path = url (stored_asset e) \<rparr>\<rparr>)))"

text \<open>
  A route with the upload middleware in front of its handler: an error of the
  middleware goes to the framework's error handler, which answers 500, and the handler
  does not run.
\<close>

definition with_upload ::
  "(env \<Rightarrow> world \<Rightarrow> request \<Rightarrow> world \<times> response)
     \<Rightarrow> env \<Rightarrow> world \<Rightarrow> request \<Rightarrow> world \<times> response" where
  "with_upload handler e w req =
     (case upload_single e w req of
        (w1, Inl err) \<Rightarrow> (w1, \<lparr> status = 500, body = ErrorPage \<rparr>)
      | (w1, Inr req1) \<Rightarrow> handler e w1 req1)"

section \<open>The product router\<close>

text \<open>
  Each handler is one \<^verbatim>\<open>try\<close> block whose \<^verbatim>\<open>catch\<close> answers 500 with a fixed
  message: \<open>*_try\<close> is the block, with a rejected \<^verbatim>\<open>await\<close> as \<open>Inl\<close>;
  \<open>*_handler\<close> adds the \<^verbatim>\<open>catch\<close>; \<open>productRouter_*\<close> is the registered route,
  the upload middleware first where the route has it. There are two versions of the
  router: the one of \<^verbatim>\<open>backend/src/routes/product.routes.ts\<close>, which the server
  mounts, and another one that also removes the old image of a product from the media
  store. Listing and creating are the same in both; the update and the delete handler
  of the first are \<open>productRouter_put_basic\<close> and \<open>productRouter_delete_basic\<close>.
\<close>

definition productRouter_get :: "env \<Rightarrow> world \<Rightarrow> world \<times> response" where
  "productRouter_get e w =
     (case getProducts e w of
        Inr products \<Rightarrow> (w, \<lparr> status = 200, body = Products products \<rparr>)
      | Inl err \<Rightarrow> (w, \<lparr> status = 500, body = Message ''Error fetching products'' \<rparr>))"

text \<open>
  \<^verbatim>\<open>
  const { name, description, price } = req.body;
  if (!req.file) {
    res.status(400).json({ message: "Image is required" });
    return;
  }
  const newProduct: Product = { name, description, price: Number(price), imageUrl: req.file.path };
  const result = await insertProduct(newProduct);
  res.status(201).json({ message: "Product created", product: result });
  \<close>
  The handler is the same in both versions of the router.
\<close>

definition post_try :: "env \<Rightarrow> world \<Rightarrow> request \<Rightarrow> world \<times> (error + response)" where
  "post_try e w req =
     (case file req of
        None \<Rightarrow> (w, Inr \<lparr> status = 400, body = Message ''Image is required'' \<rparr>)
      | Some f \<Rightarrow>
          (let newProduct = \<lparr> name = body_name req, description = body_description req,
                               price = body_price req, imageUrl = Some (path f) \<rparr>
           in (case insertProduct e w newProduct of
                 (w', Inl err) \<Rightarrow> (w', Inl err)
               | (w', Inr result) \<Rightarrow>
                   (w', Inr \<lparr> status = 201, body = MessageProduct ''Product created'' result \<rparr>))))"

definition post_handler :: "env \<Rightarrow> world \<Rightarrow> request \<Rightarrow> world \<times> response" where
  "post_handler e w req =
     (case post_try e w req of
        (w', Inr r) \<Rightarrow> (w', r)
      | (w', Inl err) \<Rightarrow> (w', \<lparr> status = 500, body = Message ''Error creating product'' \<rparr>))"

definition productRouter_post :: "env \<Rightarrow> world \<Rightarrow> request \<Rightarrow> world \<times> response" where
  "productRouter_post = with_upload post_handler"

text \<open>
  \<^verbatim>\<open>await getProducts().then(products => products.find(p => p._id.toString() === id))\<close>,
  as the update and the delete handler of the router with the image life cycle have it.
\<close>

definition findProduct :: "env \<Rightarrow> world \<Rightarrow> string \<Rightarrow> error + product option" where
  "findProduct e w i =
     (case getProducts e w of
        Inl err \<Rightarrow> Inl err
      | Inr products \<Rightarrow> Inr (List.find (\<lambda>p. p_id p = i) products))"

text \<open>
  The end of both update handlers:
  \<^verbatim>\<open>
  const result = await updateProduct(id, updateData as Product);
  res.status(200).json({ message: "Product updated", result });
  \<close>
\<close>

definition put_finish ::
  "env \<Rightarrow> world \<Rightarrow> string \<Rightarrow> product_data \<Rightarrow> world \<times> (error + response)" where
  "put_finish e w i updateData =
     (case updateProduct e w i updateData of
        (w', Inl err) \<Rightarrow> (w', Inl err)
      | (w', Inr result) \<Rightarrow>
          (w', Inr \<lparr> status = 200, body = MessageResult ''Product updated'' result \<rparr>))"

text \<open>
  The update handler of the router with the image life cycle:
  \<^verbatim>\<open>
  const existingProduct = await getProducts().then(...find...);
  const updateData: Partial<Product> = { name, description, price: Number(price) };
  if (req.file) {
    if (existingProduct?.imageUrl) {
      const publicId = getPublicIdFromUrl(existingProduct.imageUrl);
      await cloudinary.uploader.destroy(publicId);
    }
    updateData.imageUrl = req.file.path;
  }
  \<close>
  Under the test \<open>truthy (imageUrl p)\<close> the image URL is a \<open>Some\<close>, which \<open>the\<close>
  reads.
\<close>

definition put_try :: "env \<Rightarrow> world \<Rightarrow> request \<Rightarrow> world \<times> (error + response)" where
  "put_try e w req =
     (let i = params_id req
      in (case findProduct e w i of
            Inl err \<Rightarrow> (w, Inl err)
          | Inr existingProduct \<Rightarrow>
              (let updateData = \<lparr> name = body_name req, description = body_description req,
                                    price = body_price req, imageUrl = None \<rparr>
               in (case file req of
                     None \<Rightarrow> put_finish e w i updateData
                   | Some f \<Rightarrow>
                       (case existingProduct of
                          None \<Rightarrow> put_finish e w i (updateData\<lparr>imageUrl := Some (path f)\<rparr>)
                        | Some p \<Rightarrow>
                            (if truthy (imageUrl p)
                             then (case destroy e w (getPublicIdFromUrl (the (imageUrl p))) of
                                     (w1, Inl err) \<Rightarrow> (w1, Inl err)
                                   | (w1, Inr reply) \<Rightarrow>
                                       put_finish e w1 i (updateData\<lparr>imageUrl := Some (path f)\<rparr>))
                             else put_finish e w i (updateData\<lparr>imageUrl := Some (path f)\<rparr>)))))))"

definition put_handler :: "env \<Rightarrow> world \<Rightarrow> request \<Rightarrow> world \<times> response" where
  "put_handler e w req =
     (case put_try e w req of
        (w', Inr r) \<Rightarrow> (w', r)
      | (w', Inl err) \<Rightarrow> (w', \<lparr> status = 500, body = Message ''Error updating product'' \<rparr>))"

definition productRouter_put :: "env \<Rightarrow> world \<Rightarrow> request \<Rightarrow> world \<times> response" where
  "productRouter_put = with_upload put_handler"

text \<open>
  The update handler of \<^verbatim>\<open>backend/src/routes/product.routes.ts\<close>, which neither looks
  the product up nor touches the old image:
  \<^verbatim>\<open>
  const updateData: Partial<Product> = { name, description, price: Number(price) };
  if (req.file) {
    updateData.imageUrl = req.file.path;
  }
  \<close>
\<close>

definition put_basic_try :: "env \<Rightarrow> world \<Rightarrow> request \<Rightarrow> world \<times> (error + response)" where
  "put_basic_try e w req =
     (let i = params_id req;
          updateData = \<lparr> name = body_name req, description = body_description req,
                         price = body_price req, imageUrl = None \<rparr>
      in (case file req of
            None \<Rightarrow> put_finish e w i updateData
          | Some f \<Rightarrow> put_finish e w i (updateData\<lparr>imageUrl := Some (path f)\<rparr>)))"

definition put_basic_handler :: "env \<Rightarrow> world \<Rightarrow> request \<Rightarrow> world \<times> response" where
  "put_basic_handler e w req =
     (case put_basic_try e w req of
        (w', Inr r) \<Rightarrow> (w', r)
      | (w', Inl err) \<Rightarrow> (w', \<lparr> status = 500, body = Message ''Error updating product'' \<rparr>))"

definition productRouter_put_basic :: "env \<Rightarrow> world \<Rightarrow> request \<Rightarrow> world \<times> response" where
  "productRouter_put_basic = with_upload put_basic_handler"

text \<open>
  The delete handler of the router with the image life cycle:
  \<^verbatim>\<open>
  const product = await getProducts().then(...find...);
  if (!product) {
    res.status(404).json({ message: "Product not found" });
    return;
  }
  if (product.imageUrl) {
    const publicId = getPublicIdFromUrl(product.imageUrl);
    await cloudinary.uploader.destroy(publicId);
  }
  const result = await deleteProduct(id);
  res.status(200).json({ message: "Product and associated image deleted", result });
  \<close>
\<close>

definition delete_finish :: "env \<Rightarrow> world \<Rightarrow> string \<Rightarrow> world \<times> (error + response)" where
  "delete_finish e w i =
     (case deleteProduct e w i of
        (w', Inl err) \<Rightarrow> (w', Inl err)
      | (w', Inr result) \<Rightarrow>
          (w', Inr \<lparr> status = 200,
                     body = MessageResult ''Product and associated image deleted'' result \<rparr>))"

definition delete_try :: "env \<Rightarrow> world \<Rightarrow> request \<Rightarrow> world \<times> (error + response)" where
  "delete_try e w req =
     (let i = params_id req
      in (case findProduct e w i of
            Inl err \<Rightarrow> (w, Inl err)
          | Inr None \<Rightarrow> (w, Inr \<lparr> status = 404, body = Message ''Product not found'' \<rparr>)
          | Inr (Some p) \<Rightarrow>
              (if truthy (imageUrl p)
               then (case destroy e w (getPublicIdFromUrl (the (imageUrl p))) of
                       (w1, Inl err) \<Rightarrow> (w1, Inl err)
                     | (w1, Inr reply) \<Rightarrow> delete_finish e w1 i)
               else delete_finish e w i)))"

definition productRouter_delete :: "env \<Rightarrow> world \<Rightarrow> request \<Rightarrow> world \<times> response" where
  "productRouter_delete e w req =
     (case delete_try e w req of
        (w', Inr r) \<Rightarrow> (w', r)
      | (w', Inl err) \<Rightarrow> (w', \<lparr> status = 500, body = Message ''Error deleting product'' \<rparr>))"

text \<open>
  The delete handler of \<^verbatim>\<open>backend/src/routes/product.routes.ts\<close>, which neither looks
  the product up nor touches its image:
  \<^verbatim>\<open>
  const { id } = req.params;
  const result = await deleteProduct(id);
  res.status(200).json({ message: "Product deleted", result });
  \<close>
\<close>

definition delete_basic_try :: "env \<Rightarrow> world \<Rightarrow> request \<Rightarrow> world \<times> (error + response)" where
  "delete_basic_try e w req =
     (let i = params_id req
      in (case deleteProduct e w i of
            (w', Inl err) \<Rightarrow> (w', Inl err)
          | (w', Inr result) \<Rightarrow>
              (w', Inr \<lparr> status = 200, body = MessageResult ''Product deleted'' result \<rparr>)))"

definition productRouter_delete_basic :: "env \<Rightarrow> world \<Rightarrow> request \<Rightarrow> world \<times> response" where
  "productRouter_delete_basic e w req =
     (case delete_basic_try e w req of
        (w', Inr r) \<Rightarrow> (w', r)
      | (w', Inl err) \<Rightarrow> (w', \<lparr> status = 500, body = Message ''Error deleting product'' \<rparr>))"

section \<open>A small shop\<close>

text \<open>Concrete values for the examples below.\<close>

definition mug :: product where
  "mug = \<lparr> name = Some ''Mug'', description = Some ''Ceramic mug'', price = Num (999 / 100),
           imageUrl = Some ''https://res.example.com/demo/image/upload/v1/store-products/mug01.jpg'',
           p_id = ''p1'' \<rparr>"

definition bare :: product where
  "bare = \<lparr> name = Some ''Bowl'', description = Some ''Plain bowl'', price = Num 4,
            imageUrl = Some [], p_id = ''p2'' \<rparr>"

definition shop :: world where
  "shop = \<lparr> db = [mug, bare], media = [] \<rparr>"

definition tidy_shop :: world where
  "tidy_shop = \<lparr> db = [mug], media = [] \<rparr>"

definition calm :: env where
  "calm = \<lparr> list_fails = False, write_fails = False, destroy_reply = DestroyOk,
            upload_refused = False,
            stored_asset = upload ''https://res.example.com/demo/image/upload/v2'' ''cup02'' Png,
            generated_id = ''p3'' \<rparr>"

definition stormy :: env where
  "stormy = calm\<lparr>destroy_reply := DestroyRejected\<rparr>"

definition gone :: env where
  "gone = calm\<lparr>destroy_reply := DestroyNotFound\<rparr>"

definition edit :: "string \<Rightarrow> bool \<Rightarrow> request" where
  "edit i with_image =
     \<lparr> params_id = i, body_name = Some ''Mug'', body_description = Some ''Ceramic mug'',
       body_price = Num (25 / 2), image_part = with_image, file_field = ''image'',
       file = None \<rparr>"

definition blank_form :: request where
  "blank_form =
     \<lparr> params_id = [], body_name = Some [], body_description = Some [],
       body_price = Num (- 5), image_part = True, file_field = ''image'', file = None \<rparr>"

section \<open>Facts about splitting\<close>










section \<open>The round trip of the identifier\<close>




section \<open>Facts about the store and the router\<close>

lemmas router_defs =
  productRouter_post_def post_handler_def post_try_def
  productRouter_put_def put_handler_def put_try_def put_finish_def
  productRouter_put_basic_def put_basic_handler_def put_basic_try_def
  productRouter_delete_def delete_try_def delete_finish_def
  productRouter_delete_basic_def delete_basic_try_def
  productRouter_get_def findProduct_def with_upload_def upload_single_def

lemmas store_defs =
  getProducts_def insertProduct_def updateProduct_def deleteProduct_def destroy_def

lemmas shop_defs =
  mug_def bare_def shop_def tidy_shop_def calm_def stormy_def gone_def edit_def
  blank_form_def

lemma merge_p_id: "p_id (merge p d) = p_id p"
  by (simp add: merge_def)

lemma find_map_keeps_id:
  assumes "\<And>p. p_id (f p) = p_id p"
  shows "List.find (\<lambda>p. p_id p = i) (map f ps)
           = map_option f (List.find (\<lambda>p. p_id p = i) ps)"
  using assms by (induction ps) simp_all

lemma findProduct_Some:
  "findProduct e w i = Inr (Some p)
     \<longleftrightarrow> \<not> list_fails e \<and> List.find (\<lambda>q. p_id q = i) (db w) = Some p"
  by (simp add: findProduct_def getProducts_def)

lemma findProduct_None:
  "findProduct e w i = Inr None
     \<longleftrightarrow> \<not> list_fails e \<and> List.find (\<lambda>q. p_id q = i) (db w) = None"
  by (simp add: findProduct_def getProducts_def)

lemma filter_unknown_id:
  assumes "List.find (\<lambda>q. p_id q = i) ps = None"
  shows "filter (\<lambda>q. p_id q \<noteq> i) ps = ps"
  using assms by (induction ps) (auto split: if_splits)

section \<open>Create without an image\<close>

text \<open>
  C9. A create request with no image attached is answered 400 with the message
  "Image is required", and the state is the one before the request: nothing is
  inserted and nothing is uploaded.
\<close>

theorem create_without_image_rejected:
  assumes "\<not> image_part req"
  shows "productRouter_post e w req
           = (w, \<lparr> status = 400, body = Message ''Image is required'' \<rparr>)"
  using assms by (simp add: router_defs)

theorem create_without_image_rejected_witness:
  "\<not> image_part (edit [] False) \<and>
   productRouter_post calm shop (edit [] False)
     = (shop, \<lparr> status = 400, body = Message ''Image is required'' \<rparr>)"
  using create_without_image_rejected [of "edit [] False" calm shop]
  by (simp add: edit_def)

section \<open>Delete of an unknown id\<close>

text \<open>
  C8. A delete request whose id resolves to no product is answered 404 by the delete
  handler that looks the product up, and the state is the one before the request: no
  call to the media store, no write to the store. The delete handler of the router
  that the server mounts has no lookup: it sends the delete to the store, which finds
  nothing to remove, and answers 200 "Product deleted", or 500 when the store rejects
  the call.
\<close>

theorem delete_unknown_id:
  assumes "findProduct e w (params_id req) = Inr None"
  shows "productRouter_delete e w req
           = (w, \<lparr> status = 404, body = Message ''Product not found'' \<rparr>)
       \<and> productRouter_delete_basic e w req
           = (w, if write_fails e
                 then \<lparr> status = 500, body = Message ''Error deleting product'' \<rparr>
                 else \<lparr> status = 200,
                        body = MessageResult ''Product deleted'' Acknowledged \<rparr>)"
proof -
  have unknown: "List.find (\<lambda>q. p_id q = params_id req) (db w) = None"
    using assms by (simp add: findProduct_None)
  have looked_up: "productRouter_delete e w req
      = (w, \<lparr> status = 404, body = Message ''Product not found'' \<rparr>)"
    using assms by (simp add: productRouter_delete_def delete_try_def)
  have sent: "productRouter_delete_basic e w req
      = (w, if write_fails e
            then \<lparr> status = 500, body = Message ''Error deleting product'' \<rparr>
            else \<lparr> status = 200, body = MessageResult ''Product deleted'' Acknowledged \<rparr>)"
    by (simp add: productRouter_delete_basic_def delete_basic_try_def deleteProduct_def
          filter_unknown_id [OF unknown])
  show ?thesis
    using looked_up sent by simp
qed

theorem delete_unknown_id_witness:
  "findProduct calm shop (params_id (edit ''nope'' False)) = Inr None \<and>
   productRouter_delete calm shop (edit ''nope'' False)
     = (shop, \<lparr> status = 404, body = Message ''Product not found'' \<rparr>) \<and>
   productRouter_delete_basic calm shop (edit ''nope'' False)
     = (shop, \<lparr> status = 200, body = MessageResult ''Product deleted'' Acknowledged \<rparr>)"
proof -
  have unknown: "findProduct calm shop (params_id (edit ''nope'' False)) = Inr None"
    by (simp add: findProduct_def getProducts_def shop_defs)
  have up: "\<not> write_fails calm"
    by (simp add: calm_def)
  show ?thesis
    using unknown up delete_unknown_id [OF unknown] by simp
qed

section \<open>Delete of a product without an image\<close>

text \<open>
  C10. A delete request for an existing product whose stored image URL is empty or
  missing makes no call to the media store; when the store accepts the write, the
  record is removed and the answer is 200.
\<close>

theorem delete_without_image:
  assumes "findProduct e w (params_id req) = Inr (Some p)"
    and "\<not> truthy (imageUrl p)"
    and "\<not> write_fails e"
  shows "productRouter_delete e w req
           = (w\<lparr>db := filter (\<lambda>q. p_id q \<noteq> params_id req) (db w)\<rparr>,
              \<lparr> status = 200,
                body = MessageResult ''Product and associated image deleted'' Acknowledged \<rparr>)"
  using assms
  by (simp add: productRouter_delete_def delete_try_def delete_finish_def deleteProduct_def)

theorem delete_without_image_witness:
  "findProduct calm shop (params_id (edit ''p2'' False)) = Inr (Some bare) \<and>
   \<not> truthy (imageUrl bare) \<and> \<not> write_fails calm \<and>
   productRouter_delete calm shop (edit ''p2'' False)
     = (\<lparr> db = [mug], media = [] \<rparr>,
        \<lparr> status = 200,
          body = MessageResult ''Product and associated image deleted'' Acknowledged \<rparr>)"
proof -
  have found: "findProduct calm shop (params_id (edit ''p2'' False)) = Inr (Some bare)"
    by (simp add: findProduct_def getProducts_def shop_defs)
  have blank: "\<not> truthy (imageUrl bare)"
    by (simp add: truthy_def bare_def)
  have up: "\<not> write_fails calm"
    by (simp add: calm_def)
  show ?thesis
    using found blank up delete_without_image [OF found blank up]
    by (simp add: shop_defs)
qed

section \<open>Update without a new image\<close>

text \<open>
  C6. An update of an existing product that attaches no image makes no call to the
  media store and leaves the product's stored image URL as it was, in both versions of
  the update handler and whether or not the store accepts the write.
\<close>

theorem update_without_image_keeps_imageUrl:
  assumes "List.find (\<lambda>q. p_id q = params_id req) (db w) = Some p"
    and "\<not> image_part req"
  shows "media (fst (productRouter_put e w req)) = media w
       \<and> map_option imageUrl
            (List.find (\<lambda>q. p_id q = params_id req) (db (fst (productRouter_put e w req))))
           = Some (imageUrl p)
       \<and> media (fst (productRouter_put_basic e w req)) = media w
       \<and> map_option imageUrl
            (List.find (\<lambda>q. p_id q = params_id req) (db (fst (productRouter_put_basic e w req))))
           = Some (imageUrl p)"
proof -
  let ?d = "\<lparr> name = body_name req, description = body_description req,
              price = body_price req, imageUrl = None \<rparr>"
  let ?f = "\<lambda>q. if p_id q = params_id req then merge q ?d else q"
  have keep_id: "\<And>q. p_id (?f q) = p_id q"
    by (simp add: merge_p_id)
  have keep_url: "imageUrl (?f p) = imageUrl p"
    by (simp add: merge_def)
  have after: "map_option imageUrl (List.find (\<lambda>q. p_id q = params_id req) (map ?f (db w)))
                 = Some (imageUrl p)"
    using assms(1) keep_url by (simp add: find_map_keeps_id [of ?f, OF keep_id])
  have put: "fst (productRouter_put e w req)
               = (if list_fails e \<or> write_fails e then w else w\<lparr>db := map ?f (db w)\<rparr>)"
    using assms(2) by (simp add: router_defs store_defs)
  have basic: "fst (productRouter_put_basic e w req)
               = (if write_fails e then w else w\<lparr>db := map ?f (db w)\<rparr>)"
    using assms(2) by (simp add: router_defs store_defs)
  show ?thesis
    unfolding put basic using assms(1) after by simp
qed

theorem update_without_image_keeps_imageUrl_witness:
  "List.find (\<lambda>q. p_id q = params_id (edit ''p1'' False)) (db shop) = Some mug \<and>
   \<not> image_part (edit ''p1'' False) \<and>
   media (fst (productRouter_put calm shop (edit ''p1'' False))) = media shop \<and>
   map_option imageUrl
     (List.find (\<lambda>q. p_id q = params_id (edit ''p1'' False))
        (db (fst (productRouter_put calm shop (edit ''p1'' False)))))
     = Some (imageUrl mug) \<and>
   map_option price
     (List.find (\<lambda>q. p_id q = params_id (edit ''p1'' False))
        (db (fst (productRouter_put calm shop (edit ''p1'' False)))))
     = Some (Num (25 / 2))"
proof -
  have found: "List.find (\<lambda>q. p_id q = params_id (edit ''p1'' False)) (db shop) = Some mug"
    by (simp add: shop_defs)
  have plain: "\<not> image_part (edit ''p1'' False)"
    by (simp add: edit_def)
  have priced: "map_option price
     (List.find (\<lambda>q. p_id q = params_id (edit ''p1'' False))
        (db (fst (productRouter_put calm shop (edit ''p1'' False)))))
     = Some (Num (25 / 2))"
    by (simp add: router_defs store_defs shop_defs merge_def)
  show ?thesis
    using found plain priced
      update_without_image_keeps_imageUrl [OF found plain, of calm]
    by simp
qed

section \<open>Update with a new image\<close>




section \<open>Delete of an existing product\<close>




section \<open>A failing delete call to the media store\<close>

text \<open>
  C2, as the code has it. Take an existing product with a stored image and the
  handlers that delete its old image. A delete call to the media store that rejects is
  fatal: the delete of the product, and its update with a new image that the media
  store accepted, are answered 500 and the documents of the store stay as they were.
  A delete call that resolves, whatever it reports (also "not found"), is ignored: when
  the store accepts the write, the record is removed, or updated with the fields of
  the request and the URL of the new asset, and the answer is 200.
\<close>

theorem media_delete_rejection_is_fatal:
  assumes "findProduct e w (params_id req) = Inr (Some p)"
    and "truthy (imageUrl p)"
  shows "productRouter_delete e w req
           = (if destroy_reply e = DestroyRejected \<or> write_fails e
              then (w\<lparr>media := media w @ [Destroy (getPublicIdFromUrl (the (imageUrl p)))]\<rparr>,
                    \<lparr> status = 500, body = Message ''Error deleting product'' \<rparr>)
              else (w\<lparr>media := media w @ [Destroy (getPublicIdFromUrl (the (imageUrl p)))],
                      db := filter (\<lambda>q. p_id q \<noteq> params_id req) (db w)\<rparr>,
                    \<lparr> status = 200,
                      body = MessageResult ''Product and associated image deleted''
                               Acknowledged \<rparr>))
       \<and> (image_part req \<and> file_field req = ''image'' \<and> \<not> upload_refused e \<longrightarrow>
          productRouter_put e w req
           = (if destroy_reply e = DestroyRejected \<or> write_fails e
              then (w\<lparr>media := media w @ [Upload (identifier (stored_asset e)),
                                           Destroy (getPublicIdFromUrl (the (imageUrl p)))]\<rparr>,
                    \<lparr> status = 500, body = Message ''Error updating product'' \<rparr>)
              else (w\<lparr>media := media w @ [Upload (identifier (stored_asset e)),
                                           Destroy (getPublicIdFromUrl (the (imageUrl p)))],
                      db := map (\<lambda>q. if p_id q = params_id req
                                     then merge q \<lparr> name = body_name req,
                                                    description = body_description req,
                                                    price = body_price req,
                                                    imageUrl = Some (url (stored_asset e)) \<rparr>
                                     else q) (db w)\<rparr>,
                    \<lparr> status = 200, body = MessageResult ''Product updated'' Acknowledged \<rparr>)))"
proof -
  have found: "\<not> list_fails e" "List.find (\<lambda>q. p_id q = params_id req) (db w) = Some p"
    using assms(1) by (simp_all add: findProduct_Some)
  have removed: "productRouter_delete e w req
           = (if destroy_reply e = DestroyRejected \<or> write_fails e
              then (w\<lparr>media := media w @ [Destroy (getPublicIdFromUrl (the (imageUrl p)))]\<rparr>,
                    \<lparr> status = 500, body = Message ''Error deleting product'' \<rparr>)
              else (w\<lparr>media := media w @ [Destroy (getPublicIdFromUrl (the (imageUrl p)))],
                      db := filter (\<lambda>q. p_id q \<noteq> params_id req) (db w)\<rparr>,
                    \<lparr> status = 200,
                      body = MessageResult ''Product and associated image deleted''
                               Acknowledged \<rparr>))"
    using found assms(2)
    by (cases "destroy_reply e")
      (simp_all add: productRouter_delete_def delete_try_def delete_finish_def
         findProduct_def getProducts_def deleteProduct_def destroy_def)
  have updated: "productRouter_put e w req
           = (if destroy_reply e = DestroyRejected \<or> write_fails e
              then (w\<lparr>media := media w @ [Upload (identifier (stored_asset e)),
                                           Destroy (getPublicIdFromUrl (the (imageUrl p)))]\<rparr>,
                    \<lparr> status = 500, body = Message ''Error updating product'' \<rparr>)
              else (w\<lparr>media := media w @ [Upload (identifier (stored_asset e)),
                                           Destroy (getPublicIdFromUrl (the (imageUrl p)))],
                      db := map (\<lambda>q. if p_id q = params_id req
                                     then merge q \<lparr> name = body_name req,
                                                    description = body_description req,
                                                    price = body_price req,
                                                    imageUrl = Some (url (stored_asset e)) \<rparr>
                                     else q) (db w)\<rparr>,
                    \<lparr> status = 200, body = MessageResult ''Product updated'' Acknowledged \<rparr>))"
    if "image_part req" "file_field req = ''image''" "\<not> upload_refused e"
    using that found assms(2)
    by (cases "destroy_reply e")
      (simp_all add: productRouter_put_def with_upload_def upload_single_def put_handler_def
         put_try_def put_finish_def findProduct_def getProducts_def updateProduct_def
         destroy_def)
  show ?thesis
    using removed updated by blast
qed

theorem media_delete_rejection_is_fatal_witness:
  "findProduct stormy shop (params_id (edit ''p1'' True)) = Inr (Some mug) \<and>
   findProduct gone shop (params_id (edit ''p1'' True)) = Inr (Some mug) \<and>
   truthy (imageUrl mug) \<and>
   image_part (edit ''p1'' True) \<and> file_field (edit ''p1'' True) = ''image'' \<and>
   \<not> upload_refused stormy \<and> \<not> upload_refused gone \<and>
   destroy_reply stormy = DestroyRejected \<and>
   destroy_reply gone = DestroyNotFound \<and> \<not> write_fails gone \<and>
   status (snd (productRouter_put stormy shop (edit ''p1'' True))) = 500 \<and>
   db (fst (productRouter_put stormy shop (edit ''p1'' True))) = db shop \<and>
   status (snd (productRouter_delete stormy shop (edit ''p1'' True))) = 500 \<and>
   db (fst (productRouter_delete stormy shop (edit ''p1'' True))) = db shop \<and>
   status (snd (productRouter_put gone shop (edit ''p1'' True))) = 200 \<and>
   map_option price
     (List.find (\<lambda>q. p_id q = ''p1'') (db (fst (productRouter_put gone shop (edit ''p1'' True)))))
     = Some (Num (25 / 2)) \<and>
   status (snd (productRouter_delete gone shop (edit ''p1'' True))) = 200 \<and>
   db (fst (productRouter_delete gone shop (edit ''p1'' True))) = [bare]"
proof -
  have found_stormy: "findProduct stormy shop (params_id (edit ''p1'' True)) = Inr (Some mug)"
    by (simp add: findProduct_def getProducts_def shop_defs)
  have found_gone: "findProduct gone shop (params_id (edit ''p1'' True)) = Inr (Some mug)"
    by (simp add: findProduct_def getProducts_def shop_defs)
  have pictured: "truthy (imageUrl mug)"
    by (simp add: truthy_def mug_def)
  have attached: "image_part (edit ''p1'' True)" "file_field (edit ''p1'' True) = ''image''"
    by (simp_all add: edit_def)
  have accepted: "\<not> upload_refused stormy" "\<not> upload_refused gone"
    by (simp_all add: stormy_def gone_def calm_def)
  have rejects: "destroy_reply stormy = DestroyRejected"
    by (simp add: stormy_def)
  have resolves: "destroy_reply gone = DestroyNotFound" "\<not> write_fails gone"
    by (simp_all add: gone_def calm_def)
  have start: "db shop = [mug, bare]"
    by (simp add: shop_def)
  have ids: "p_id mug = ''p1''" "p_id bare = ''p2''" "params_id (edit ''p1'' True) = ''p1''"
    "body_price (edit ''p1'' True) = Num (25 / 2)"
    by (simp_all add: mug_def bare_def edit_def)
  note failing = media_delete_rejection_is_fatal [OF found_stormy pictured]
  note passing = media_delete_rejection_is_fatal [OF found_gone pictured]
  have put_500: "status (snd (productRouter_put stormy shop (edit ''p1'' True))) = 500
      \<and> db (fst (productRouter_put stormy shop (edit ''p1'' True))) = db shop"
    using failing [THEN conjunct2] attached accepted(1) rejects by simp
  have delete_500: "status (snd (productRouter_delete stormy shop (edit ''p1'' True))) = 500
      \<and> db (fst (productRouter_delete stormy shop (edit ''p1'' True))) = db shop"
    using failing [THEN conjunct1] rejects by simp
  have put_200: "status (snd (productRouter_put gone shop (edit ''p1'' True))) = 200
      \<and> map_option price
          (List.find (\<lambda>q. p_id q = ''p1'')
             (db (fst (productRouter_put gone shop (edit ''p1'' True)))))
          = Some (Num (25 / 2))"
    using passing [THEN conjunct2] attached accepted(2) resolves
    by (simp add: start ids merge_def)
  have delete_200: "status (snd (productRouter_delete gone shop (edit ''p1'' True))) = 200
      \<and> db (fst (productRouter_delete gone shop (edit ''p1'' True))) = [bare]"
    using passing [THEN conjunct1] resolves by (simp add: start ids)
  show ?thesis
    using found_stormy found_gone pictured attached accepted rejects resolves
      put_500 delete_500 put_200 delete_200
    by blast
qed

text \<open>
  With a rejecting delete call the update and the delete of an existing product end in
  the \<^verbatim>\<open>catch\<close> of their handler: the answer is 500 and no record is written.
\<close>

theorem media_delete_failure_counterexample:
  "findProduct stormy shop (params_id (edit ''p1'' True)) = Inr (Some mug) \<and>
   truthy (imageUrl mug) \<and> image_part (edit ''p1'' True) \<and>
   destroy_reply stormy = DestroyRejected \<and> \<not> write_fails stormy \<and>
   productRouter_put stormy shop (edit ''p1'' True)
     = (shop\<lparr>media := [Upload ''store-products/cup02'', Destroy ''store-products/mug01'']\<rparr>,
        \<lparr> status = 500, body = Message ''Error updating product'' \<rparr>) \<and>
   productRouter_delete stormy shop (edit ''p1'' True)
     = (shop\<lparr>media := [Destroy ''store-products/mug01'']\<rparr>,
        \<lparr> status = 500, body = Message ''Error deleting product'' \<rparr>)"
  by (simp add: router_defs store_defs shop_defs truthy_def getPublicIdFromUrl_def
        upload_def folder_def)

section \<open>What create and update keep of the invariant\<close>

text \<open>
  C4, as the code has it. Create and update keep the image part of the invariant: when
  every stored product has a non-empty image URL and the media store issues a non-empty
  URL, every stored product has a non-empty image URL after a create and after an
  update (either version). Create answers 400 exactly when no file is attached, 500
  when the upload or the write fails, and 201 otherwise, and only then it stores a
  product: name, description and price as they were received, with the URL of the
  uploaded asset. An update (either version) that is answered 200 has replaced the
  name, description and price of the product by the ones received, and its image URL
  when a new image came with the request. No field is checked.
\<close>

theorem create_and_update_keep_images:
  assumes "list_all (\<lambda>p. truthy (imageUrl p)) (db w)"
    and "url (stored_asset e) \<noteq> []"
  shows "list_all (\<lambda>p. truthy (imageUrl p)) (db (fst (productRouter_post e w req)))
       \<and> list_all (\<lambda>p. truthy (imageUrl p)) (db (fst (productRouter_put e w req)))
       \<and> list_all (\<lambda>p. truthy (imageUrl p)) (db (fst (productRouter_put_basic e w req)))
       \<and> snd (productRouter_post e w req)
           = (if \<not> image_part req
              then \<lparr> status = 400, body = Message ''Image is required'' \<rparr>
              else if file_field req \<noteq> ''image'' \<or> upload_refused e
              then \<lparr> status = 500, body = ErrorPage \<rparr>
              else if write_fails e
              then \<lparr> status = 500, body = Message ''Error creating product'' \<rparr>
              else \<lparr> status = 201,
                     body = MessageProduct ''Product created''
                              \<lparr> name = body_name req, description = body_description req,
                                price = body_price req,
                                imageUrl = Some (url (stored_asset e)),
                                p_id = generated_id e \<rparr> \<rparr>)
       \<and> db (fst (productRouter_post e w req))
           = (if image_part req \<and> file_field req = ''image'' \<and> \<not> upload_refused e
                 \<and> \<not> write_fails e
              then db w @ [\<lparr> name = body_name req, description = body_description req,
                               price = body_price req,
                               imageUrl = Some (url (stored_asset e)),
                               p_id = generated_id e \<rparr>]
              else db w)
       \<and> (status (snd (productRouter_put e w req)) = 200 \<longrightarrow>
            db (fst (productRouter_put e w req))
              = map (\<lambda>q. if p_id q = params_id req
                          then merge q \<lparr> name = body_name req,
                                         description = body_description req,
                                         price = body_price req,
                                         imageUrl = (if image_part req
                                                     then Some (url (stored_asset e))
                                                     else None) \<rparr>
                          else q) (db w))
       \<and> (status (snd (productRouter_put_basic e w req)) = 200 \<longrightarrow>
            db (fst (productRouter_put_basic e w req))
              = map (\<lambda>q. if p_id q = params_id req
                          then merge q \<lparr> name = body_name req,
                                         description = body_description req,
                                         price = body_price req,
                                         imageUrl = (if image_part req
                                                     then Some (url (stored_asset e))
                                                     else None) \<rparr>
                          else q) (db w))"
proof -
  have new_fields: "truthy (imageUrl (merge q \<lparr> name = body_name req,
                        description = body_description req, price = body_price req,
                        imageUrl = Some (url (stored_asset e)) \<rparr>))" for q
    using assms(2) by (simp add: merge_def truthy_def)
  have old_fields: "truthy (imageUrl (merge q \<lparr> name = body_name req,
                        description = body_description req, price = body_price req,
                        imageUrl = None \<rparr>))" if "truthy (imageUrl q)" for q
    using that by (simp add: merge_def)
  have post: "list_all (\<lambda>p. truthy (imageUrl p)) (db (fst (productRouter_post e w req)))"
    using assms
    by (auto simp: productRouter_post_def with_upload_def upload_single_def post_handler_def
          post_try_def insertProduct_def Let_def truthy_def)
  have put: "list_all (\<lambda>p. truthy (imageUrl p)) (db (fst (productRouter_put e w req)))"
    using assms new_fields old_fields
    by (auto simp: productRouter_put_def with_upload_def upload_single_def put_handler_def
          put_try_def put_finish_def findProduct_def getProducts_def updateProduct_def
          destroy_def Let_def list_all_iff
          split: option.splits destroy_reply.splits)
  have basic: "list_all (\<lambda>p. truthy (imageUrl p)) (db (fst (productRouter_put_basic e w req)))"
    using assms new_fields old_fields
    by (auto simp: productRouter_put_basic_def with_upload_def upload_single_def
          put_basic_handler_def put_basic_try_def put_finish_def updateProduct_def
          Let_def list_all_iff)
  have answer: "snd (productRouter_post e w req)
           = (if \<not> image_part req
              then \<lparr> status = 400, body = Message ''Image is required'' \<rparr>
              else if file_field req \<noteq> ''image'' \<or> upload_refused e
              then \<lparr> status = 500, body = ErrorPage \<rparr>
              else if write_fails e
              then \<lparr> status = 500, body = Message ''Error creating product'' \<rparr>
              else \<lparr> status = 201,
                     body = MessageProduct ''Product created''
                              \<lparr> name = body_name req, description = body_description req,
                                price = body_price req,
                                imageUrl = Some (url (stored_asset e)),
                                p_id = generated_id e \<rparr> \<rparr>)"
    by (simp add: productRouter_post_def with_upload_def upload_single_def post_handler_def
          post_try_def insertProduct_def Let_def)
  have docs: "db (fst (productRouter_post e w req))
           = (if image_part req \<and> file_field req = ''image'' \<and> \<not> upload_refused e
                 \<and> \<not> write_fails e
              then db w @ [\<lparr> name = body_name req, description = body_description req,
                               price = body_price req,
                               imageUrl = Some (url (stored_asset e)),
                               p_id = generated_id e \<rparr>]
              else db w)"
    by (simp add: productRouter_post_def with_upload_def upload_single_def post_handler_def
          post_try_def insertProduct_def Let_def)
  have put_writes: "db (fst (productRouter_put e w req))
              = map (\<lambda>q. if p_id q = params_id req
                          then merge q \<lparr> name = body_name req,
                                         description = body_description req,
                                         price = body_price req,
                                         imageUrl = (if image_part req
                                                     then Some (url (stored_asset e))
                                                     else None) \<rparr>
                          else q) (db w)"
    if "status (snd (productRouter_put e w req)) = 200"
    using that
    by (auto simp: productRouter_put_def with_upload_def upload_single_def put_handler_def
          put_try_def put_finish_def findProduct_def getProducts_def updateProduct_def
          destroy_def Let_def
          split: option.splits destroy_reply.splits if_splits)
  have basic_writes: "db (fst (productRouter_put_basic e w req))
              = map (\<lambda>q. if p_id q = params_id req
                          then merge q \<lparr> name = body_name req,
                                         description = body_description req,
                                         price = body_price req,
                                         imageUrl = (if image_part req
                                                     then Some (url (stored_asset e))
                                                     else None) \<rparr>
                          else q) (db w)"
    if "status (snd (productRouter_put_basic e w req)) = 200"
    using that
    by (auto simp: productRouter_put_basic_def with_upload_def upload_single_def
          put_basic_handler_def put_basic_try_def put_finish_def updateProduct_def
          Let_def split: if_splits)
  show ?thesis
    using post put basic answer docs put_writes basic_writes by blast
qed

theorem create_and_update_keep_images_witness:
  "list_all (\<lambda>p. truthy (imageUrl p)) (db tidy_shop) \<and>
   url (stored_asset calm) \<noteq> [] \<and>
   list_all (\<lambda>p. truthy (imageUrl p)) (db (fst (productRouter_post calm tidy_shop blank_form))) \<and>
   status (snd (productRouter_post calm tidy_shop blank_form)) = 201 \<and>
   db (fst (productRouter_post calm tidy_shop blank_form))
     = [mug,
        \<lparr> name = Some [], description = Some [], price = Num (- 5),
          imageUrl = Some ''https://res.example.com/demo/image/upload/v2/store-products/cup02.png'',
          p_id = ''p3'' \<rparr>] \<and>
   status (snd (productRouter_put calm tidy_shop (blank_form\<lparr>params_id := ''p1''\<rparr>))) = 200 \<and>
   db (fst (productRouter_put calm tidy_shop (blank_form\<lparr>params_id := ''p1''\<rparr>)))
     = [\<lparr> name = Some [], description = Some [], price = Num (- 5),
          imageUrl = Some ''https://res.example.com/demo/image/upload/v2/store-products/cup02.png'',
          p_id = ''p1'' \<rparr>]"
proof -
  let ?edit = "blank_form\<lparr>params_id := ''p1''\<rparr>"
  have tidy: "list_all (\<lambda>p. truthy (imageUrl p)) (db tidy_shop)"
    by (simp add: tidy_shop_def mug_def truthy_def)
  have asset: "url (stored_asset calm)
      = ''https://res.example.com/demo/image/upload/v2/store-products/cup02.png''"
    by (simp add: calm_def upload_def folder_def)
  have issued: "url (stored_asset calm) \<noteq> []"
    by (simp add: asset)
  have form: "image_part blank_form" "file_field blank_form = ''image''"
    "body_name blank_form = Some []" "body_description blank_form = Some []"
    "body_price blank_form = Num (- 5)"
    by (simp_all add: blank_form_def)
  have quiet: "\<not> upload_refused calm" "\<not> write_fails calm" "generated_id calm = ''p3''"
    by (simp_all add: calm_def)
  have start: "db tidy_shop = [mug]" "p_id mug = ''p1''"
    by (simp_all add: tidy_shop_def mug_def)
  note created = create_and_update_keep_images [OF tidy issued, of blank_form]
  note edited = create_and_update_keep_images [OF tidy issued, of ?edit]
  have kept: "list_all (\<lambda>p. truthy (imageUrl p))
                (db (fst (productRouter_post calm tidy_shop blank_form)))"
    using created by blast
  have answer: "status (snd (productRouter_post calm tidy_shop blank_form)) = 201"
    using created [THEN conjunct2, THEN conjunct2, THEN conjunct2, THEN conjunct1] form quiet
    by simp
  have docs: "db (fst (productRouter_post calm tidy_shop blank_form))
     = [mug,
        \<lparr> name = Some [], description = Some [], price = Num (- 5),
          imageUrl = Some ''https://res.example.com/demo/image/upload/v2/store-products/cup02.png'',
          p_id = ''p3'' \<rparr>]"
    using created [THEN conjunct2, THEN conjunct2, THEN conjunct2, THEN conjunct2,
        THEN conjunct1] form quiet
    by (simp add: asset start)
  have put_answer: "status (snd (productRouter_put calm tidy_shop ?edit)) = 200"
    by (simp add: router_defs store_defs shop_defs truthy_def)
  have put_docs: "db (fst (productRouter_put calm tidy_shop ?edit))
     = [\<lparr> name = Some [], description = Some [], price = Num (- 5),
          imageUrl = Some ''https://res.example.com/demo/image/upload/v2/store-products/cup02.png'',
          p_id = ''p1'' \<rparr>]"
    using edited [THEN conjunct2, THEN conjunct2, THEN conjunct2, THEN conjunct2,
        THEN conjunct2, THEN conjunct1] put_answer form
    by (simp add: asset start merge_def mug_def)
  show ?thesis
    using tidy issued kept answer docs put_answer put_docs by blast
qed

text \<open>
  Name, description and price are not checked: from a store whose products all satisfy
  the invariant of the data model, a create with an empty name, an empty description
  and the price -5 is answered 201, an update with the same fields is answered 200,
  and each leaves a product in the store that violates the invariant.
\<close>

theorem validation_counterexample:
  "list_all product_invariant (db tidy_shop) \<and>
   status (snd (productRouter_post calm tidy_shop blank_form)) = 201 \<and>
   \<not> list_all product_invariant (db (fst (productRouter_post calm tidy_shop blank_form))) \<and>
   status (snd (productRouter_put calm tidy_shop (blank_form\<lparr>params_id := ''p1''\<rparr>))) = 200 \<and>
   \<not> list_all product_invariant
        (db (fst (productRouter_put calm tidy_shop (blank_form\<lparr>params_id := ''p1''\<rparr>)))) \<and>
   status (snd (productRouter_put_basic calm tidy_shop (blank_form\<lparr>params_id := ''p1''\<rparr>)))
     = 200 \<and>
   \<not> list_all product_invariant
        (db (fst (productRouter_put_basic calm tidy_shop (blank_form\<lparr>params_id := ''p1''\<rparr>))))"
  by (simp add: router_defs store_defs shop_defs truthy_def product_invariant_def Let_def
        merge_def upload_def folder_def getPublicIdFromUrl_def)

section \<open>Update of an unknown id\<close>

text \<open>
  C3. An update whose id resolves to no product is not answered 404: both versions of
  the update handler call the store and answer 200 "Product updated", and with an image
  attached the new asset has been uploaded by then. The delete handler next to it
  answers 404 for the same id.
\<close>

theorem update_unknown_id_answers_200:
  "findProduct calm shop (params_id (edit ''nope'' False)) = Inr None \<and>
   productRouter_put calm shop (edit ''nope'' False)
     = (shop, \<lparr> status = 200, body = MessageResult ''Product updated'' Acknowledged \<rparr>) \<and>
   productRouter_put_basic calm shop (edit ''nope'' False)
     = (shop, \<lparr> status = 200, body = MessageResult ''Product updated'' Acknowledged \<rparr>) \<and>
   productRouter_put calm shop (edit ''nope'' True)
     = (shop\<lparr>media := [Upload ''store-products/cup02'']\<rparr>,
        \<lparr> status = 200, body = MessageResult ''Product updated'' Acknowledged \<rparr>) \<and>
   productRouter_delete calm shop (edit ''nope'' False)
     = (shop, \<lparr> status = 404, body = Message ''Product not found'' \<rparr>)"
  by (simp add: router_defs store_defs shop_defs Let_def upload_def folder_def)


end
